theory Spec2Isabelle
  imports Main "HOL-Library.Word" "HOL-Library.Sublist"
begin

section \<open>File signature scanner: data\<close>

text \<open>
  A shallow embedding of \<^verbatim>\<open>src/main.py\<close> (class \<^verbatim>\<open>FileSignatureScanner\<close>).
  Python \<^verbatim>\<open>bytes\<close> are lists of 8-bit words, Python \<^verbatim>\<open>str\<close> is \<open>string\<close>.
  An exception is a value of \<open>exn\<close>; a call that may raise returns \<open>exn + 'a\<close>
  with \<open>Inl\<close> for the raised exception. Each constructor carries \<^verbatim>\<open>str(e)\<close>
  and stands for its class together with the subclasses that have no constructor of
  their own: \<open>OSError\<close> for \<^verbatim>\<open>PermissionError\<close> and \<^verbatim>\<open>IsADirectoryError\<close>,
  \<open>ValueError\<close> for \<^verbatim>\<open>UnicodeDecodeError\<close>.
\<close>

type_synonym byte = "8 word"
type_synonym path = string

datatype exn =
    FileNotFoundError string
  | OSError string
  | JSONDecodeError string
  | ValueError string
  | TypeError string
  | AttributeError string
  | OleFileIOError string
  | OtherException string

fun str_exn :: "exn \<Rightarrow> string" where
  "str_exn (FileNotFoundError m) = m"
| "str_exn (OSError m) = m"
| "str_exn (JSONDecodeError m) = m"
| "str_exn (ValueError m) = m"
| "str_exn (TypeError m) = m"
| "str_exn (AttributeError m) = m"
| "str_exn (OleFileIOError m) = m"
| "str_exn (OtherException m) = m"

text \<open>
  What \<^verbatim>\<open>json.load\<close> can return. A Python dict keeps insertion order, so an
  object is an association list in that order. Numbers are never inspected by the
  scanner; an integer stands for any of them.
\<close>

datatype json =
    JNull
  | JBool bool
  | JNum int
  | JStr string
  | JArr "json list"
  | JObj "(string \<times> json) list"

text \<open>
  The file system as the scanner sees it: a path is absent, present but not openable
  for reading (a directory, no permission; the text is the \<^verbatim>\<open>OSError\<close> message),
  or a regular readable file with its content.
\<close>

datatype node = Missing | Unreadable string | File "byte list"

text \<open>
  An opened OLE container (\<^verbatim>\<open>olefile.OleFileIO\<close>): \<^verbatim>\<open>listdir()\<close> gives the
  entries, each a list of name components, and \<open>openstream_read name\<close> stands for
  \<^verbatim>\<open>openstream(name).read()\<close>.
\<close>

record ole =
  listdir :: "string list list"
  openstream_read :: "string \<Rightarrow> exn + byte list"

text \<open>
  The environment of a call: the file system and the external collaborators
  (\<^verbatim>\<open>json.load\<close> on the content of a text file, \<^verbatim>\<open>magic.Magic.from_buffer\<close>,
  \<^verbatim>\<open>olefile.isOleFile\<close> and \<^verbatim>\<open>olefile.OleFileIO\<close>), taken as parameters.
\<close>

record env =
  files :: "path \<Rightarrow> node"
  json_load :: "byte list \<Rightarrow> exn + json"
  from_buffer :: "byte list \<Rightarrow> exn + string"
  isOleFile :: "path \<Rightarrow> exn + bool"
  OleFileIO :: "path \<Rightarrow> exn + ole"

text \<open>
  The observable effects of a call, in order: handles acquired and released, and the
  records passed to \<^verbatim>\<open>logging\<close>.
\<close>

datatype level = INFO | WARNING | ERROR

datatype event =
    FileOpen path
  | FileClose path
  | OleOpen path
  | OleClose path
  | Log level string

datatype handle = FileHandle path | OleHandle path

fun step_handles :: "handle list \<Rightarrow> event \<Rightarrow> handle list" where
  "step_handles hs (FileOpen p) = hs @ [FileHandle p]"
| "step_handles hs (FileClose p) = remove1 (FileHandle p) hs"
| "step_handles hs (OleOpen p) = hs @ [OleHandle p]"
| "step_handles hs (OleClose p) = remove1 (OleHandle p) hs"
| "step_handles hs (Log l m) = hs"

definition open_handles :: "event list \<Rightarrow> handle list" where
  "open_handles tr = foldl step_handles [] tr"

fun is_log :: "event \<Rightarrow> bool" where
  "is_log (Log l m) = True"
| "is_log e = False"

text \<open>The instance attributes set by \<^verbatim>\<open>__init__\<close>.\<close>

record scanner =
  signature_db :: "string option"
  signatures :: json

section \<open>Python primitives used by the scanner\<close>

text \<open>Truthiness of an \<^verbatim>\<open>Optional[str]\<close>: \<^verbatim>\<open>None\<close> and the empty string are false.\<close>

fun truthy :: "string option \<Rightarrow> bool" where
  "truthy None = False"
| "truthy (Some s) = (s \<noteq> [])"

definition exists :: "env \<Rightarrow> path \<Rightarrow> bool" where
  "exists env p = (files env p \<noteq> Missing)"

definition quote :: "string \<Rightarrow> string" where
  "quote s = [CHR 0x27] @ s @ [CHR 0x27]"

text \<open>
  \<^verbatim>\<open>with open(p, 'rb') as f: f.read()\<close>. A failure happens in \<^verbatim>\<open>open\<close>, before any
  handle exists; on success the handle is released when the block is left.
\<close>

definition read_file :: "env \<Rightarrow> path \<Rightarrow> event list \<times> (exn + byte list)" where
  "read_file env p =
     (case files env p of
        Missing \<Rightarrow> ([], Inl (FileNotFoundError (''[Errno 2] No such file or directory: '' @ quote p)))
      | Unreadable m \<Rightarrow> ([], Inl (OSError m))
      | File bs \<Rightarrow> ([FileOpen p, FileClose p], Inr bs))"

text \<open>\<^verbatim>\<open>except IOError\<close>: \<^verbatim>\<open>IOError\<close> is \<^verbatim>\<open>OSError\<close>, with its subclasses.\<close>

fun is_IOError :: "exn \<Rightarrow> bool" where
  "is_IOError (FileNotFoundError m) = True"
| "is_IOError (OSError m) = True"
| "is_IOError e = False"

text \<open>
  \<^verbatim>\<open>bytes.fromhex\<close>: ASCII whitespace is skipped between bytes, every byte is two
  hexadecimal digits; anything else raises \<^verbatim>\<open>ValueError\<close> (here \<open>None\<close>).
\<close>

definition is_space :: "char \<Rightarrow> bool" where
  "is_space c = (c \<in> set [CHR 0x20, CHR 0x09, CHR 0x0A, CHR 0x0B, CHR 0x0C, CHR 0x0D])"

definition hexval :: "char \<Rightarrow> nat option" where
  "hexval c = map_of
     [(CHR ''0'', 0), (CHR ''1'', 1), (CHR ''2'', 2), (CHR ''3'', 3), (CHR ''4'', 4),
      (CHR ''5'', 5), (CHR ''6'', 6), (CHR ''7'', 7), (CHR ''8'', 8), (CHR ''9'', 9),
      (CHR ''a'', 10), (CHR ''b'', 11), (CHR ''c'', 12), (CHR ''d'', 13), (CHR ''e'', 14),
      (CHR ''f'', 15), (CHR ''A'', 10), (CHR ''B'', 11), (CHR ''C'', 12), (CHR ''D'', 13),
      (CHR ''E'', 14), (CHR ''F'', 15)] c"

fun fromhex :: "string \<Rightarrow> byte list option" where
  "fromhex [] = Some []"
| "fromhex [c] = (if is_space c then Some [] else None)"
| "fromhex (c # d # cs) =
     (if is_space c then fromhex (d # cs)
      else (case (hexval c, hexval d) of
              (Some hi, Some lo) \<Rightarrow> map_option ((#) (of_nat (16 * hi + lo))) (fromhex cs)
            | _ \<Rightarrow> None))"

text \<open>The exception \<^verbatim>\<open>bytes.fromhex\<close> raises on such a string.\<close>

definition hex_fault :: exn where
  "hex_fault = ValueError ''non-hexadecimal number found in fromhex() arg''"

text \<open>\<^verbatim>\<open>header.startswith(pattern)\<close> compares \<^verbatim>\<open>header[:len(pattern)]\<close> with the pattern.\<close>

definition startswith :: "byte list \<Rightarrow> byte list \<Rightarrow> bool" where
  "startswith header pattern = (take (length pattern) header = pattern)"

text \<open>\<^verbatim>\<open>d.items()\<close>: only a dict has the attribute.\<close>

fun items :: "json \<Rightarrow> exn + (string \<times> json) list" where
  "items (JObj kvs) = Inr kvs"
| "items j = Inl (AttributeError ''object has no attribute items'')"

text \<open>
  \<^verbatim>\<open>for signature in signatures\<close>: a list gives its elements, a string its
  characters, a dict its keys; nothing else is iterable.
\<close>

fun iter :: "json \<Rightarrow> exn + json list" where
  "iter (JArr xs) = Inr xs"
| "iter (JStr s) = Inr (map (\<lambda>c. JStr [c]) s)"
| "iter (JObj kvs) = Inr (map (\<lambda>kv. JStr (fst kv)) kvs)"
| "iter j = Inl (TypeError ''object is not iterable'')"

section \<open>The scanner\<close>

subsection \<open>Construction\<close>

text \<open>The body of the \<^verbatim>\<open>try\<close> in \<^verbatim>\<open>__init__\<close>, lines 35 and 36.\<close>

definition load_signatures :: "env \<Rightarrow> path \<Rightarrow> event list \<times> (exn + json)" where
  "load_signatures env p =
     (case read_file env p of
        (tr, Inl e) \<Rightarrow> (tr, Inl e)
      | (tr, Inr bs) \<Rightarrow> (tr, json_load env bs))"

text \<open>
  \<^verbatim>\<open>__init__\<close>, lines 29 to 43. The two \<^verbatim>\<open>except\<close> clauses catch
  \<^verbatim>\<open>FileNotFoundError\<close> and \<^verbatim>\<open>json.JSONDecodeError\<close>; any other exception leaves the
  constructor as it is. The classifier object of line 31 is the collaborator
  \<open>from_buffer\<close> of the environment.
\<close>

definition init :: "env \<Rightarrow> string option \<Rightarrow> event list \<times> (exn + scanner)" where
  "init env db =
     (if truthy db then
        (case db of
           None \<Rightarrow> ([], Inr \<lparr>signature_db = db, signatures = JObj []\<rparr>)
         | Some p \<Rightarrow>
            (case load_signatures env p of
               (tr, Inr j) \<Rightarrow>
                 (tr @ [Log INFO (''Loaded signature database from: '' @ p)],
                  Inr \<lparr>signature_db = db, signatures = j\<rparr>)
             | (tr, Inl (FileNotFoundError m)) \<Rightarrow>
                 (tr @ [Log ERROR (''Signature database not found: '' @ p)],
                  Inl (FileNotFoundError (''Signature database not found: '' @ p)))
             | (tr, Inl (JSONDecodeError m)) \<Rightarrow>
                 (tr @ [Log ERROR (''Error decoding JSON from '' @ p @ '': '' @ m)],
                  Inl (ValueError (''Invalid JSON in signature database: '' @ m)))
             | (tr, Inl e) \<Rightarrow> (tr, Inl e)))
      else ([], Inr \<lparr>signature_db = db, signatures = JObj []\<rparr>))"

subsection \<open>Identification\<close>

text \<open>
  The inner loop, lines 70 to 73: \<open>Inr True\<close> when a signature matched (the
  \<^verbatim>\<open>return\<close> of line 73), \<open>Inr False\<close> when the loop ran to its end.
\<close>

fun scan_signatures :: "byte list \<Rightarrow> json list \<Rightarrow> exn + bool" where
  "scan_signatures header [] = Inr False"
| "scan_signatures header (JStr signature # rest) =
     (case fromhex signature of
        None \<Rightarrow> Inl hex_fault
      | Some pattern \<Rightarrow>
          if startswith header pattern then Inr True else scan_signatures header rest)"
| "scan_signatures header (j # rest) = Inl (TypeError ''fromhex() argument must be str'')"

text \<open>The outer loop, line 69, over the items in dict order.\<close>

fun scan_items :: "byte list \<Rightarrow> (string \<times> json) list \<Rightarrow> exn + string option" where
  "scan_items header [] = Inr None"
| "scan_items header ((file_type, sigs) # rest) =
     (case iter sigs of
        Inl e \<Rightarrow> Inl e
      | Inr ss \<Rightarrow>
         (case scan_signatures header ss of
            Inl e \<Rightarrow> Inl e
          | Inr True \<Rightarrow> Inr (Some file_type)
          | Inr False \<Rightarrow> scan_items header rest))"

definition scan_table :: "byte list \<Rightarrow> json \<Rightarrow> exn + string option" where
  "scan_table header table =
     (case items table of Inl e \<Rightarrow> Inl e | Inr kvs \<Rightarrow> scan_items header kvs)"

text \<open>\<^verbatim>\<open>identify_file_type\<close>, lines 56 to 89.\<close>

definition identify_file_type :: "env \<Rightarrow> scanner \<Rightarrow> path \<Rightarrow> event list \<times> (exn + string option)" where
  "identify_file_type env self file_path =
     (if \<not> exists env file_path then
        ([Log ERROR (''File not found: '' @ file_path)], Inr None)
      else
        (case read_file env file_path of
           (tr, Inl e) \<Rightarrow>
             (if is_IOError e then
                (tr @ [Log ERROR (''Error reading file: '' @ file_path @ '' - '' @ str_exn e)], Inr None)
              else (tr, Inl e))
         | (tr, Inr content) \<Rightarrow>
             (let header = take 1024 content in
              if truthy (signature_db self) then
                (case scan_table header (signatures self) of
                   Inl e \<Rightarrow> (tr, Inl e)
                 | Inr (Some file_type) \<Rightarrow>
                     (tr @ [Log INFO (''Identified file type as: '' @ file_type @ '' (based on signature database)'')],
                      Inr (Some file_type))
                 | Inr None \<Rightarrow>
                     (tr @ [Log WARNING (''File type not identified for: '' @ file_path)], Inr None))
              else
                (case from_buffer env header of
                   Inl e \<Rightarrow> (tr @ [Log ERROR (''Error using python-magic: '' @ str_exn e)], Inr None)
                 | Inr mime_type \<Rightarrow>
                     if mime_type \<noteq> [] then
                       (tr @ [Log INFO (''Identified file type as: '' @ mime_type @ '' (using python-magic)'')],
                        Inr (Some mime_type))
                     else
                       (tr @ [Log WARNING (''Could not determine file type for '' @ file_path @ '' using python-magic.'')],
                        Inr None)))))"

subsection \<open>Extraction\<close>

text \<open>
  The loop of lines 109 to 113 returns at the first entry that is a non-empty list,
  with the first component of that entry as the stream to open.
\<close>

fun first_stream :: "string list list \<Rightarrow> string option" where
  "first_stream [] = None"
| "first_stream ([] # rest) = first_stream rest"
| "first_stream ((name # components) # rest) = Some name"

text \<open>The body of the \<^verbatim>\<open>try\<close> of the OLE branch, lines 106 to 119.\<close>

definition extract_ole :: "env \<Rightarrow> path \<Rightarrow> event list \<times> (exn + byte list option)" where
  "extract_ole env file_path =
     (case isOleFile env file_path of
        Inl e \<Rightarrow> ([], Inl e)
      | Inr False \<Rightarrow> ([Log ERROR (file_path @ '' is not a valid OLE file.'')], Inr None)
      | Inr True \<Rightarrow>
         (case OleFileIO env file_path of
            Inl e \<Rightarrow> ([], Inl e)
          | Inr container \<Rightarrow>
             (case first_stream (listdir container) of
                Some name \<Rightarrow>
                  (case openstream_read container name of
                     Inl e \<Rightarrow> ([OleOpen file_path], Inl e)
                   | Inr stream_data \<Rightarrow>
                       ([OleOpen file_path, Log INFO (''Extracted data from stream: '' @ name)],
                        Inr (Some stream_data)))
              | None \<Rightarrow>
                  ([OleOpen file_path, OleClose file_path, Log WARNING ''No streams found in OLE file.''],
                   Inr None))))"

text \<open>\<^verbatim>\<open>extract_data\<close>, lines 104 to 138.\<close>

definition extract_data :: "env \<Rightarrow> path \<Rightarrow> string \<Rightarrow> event list \<times> (exn + byte list option)" where
  "extract_data env file_path file_type =
     (if file_type = ''application/x-ole-storage'' then
        (case extract_ole env file_path of
           (tr, Inl (OleFileIOError m)) \<Rightarrow>
             (tr @ [Log ERROR (''Error processing OLE file: '' @ m)], Inr None)
         | r \<Rightarrow> r)
      else if file_type = ''image/jpeg'' then
        (case read_file env file_path of
           (tr, Inr data) \<Rightarrow>
             (tr @ [Log INFO ''Extracted all data as JPEG content.''], Inr (Some data))
         | (tr, Inl e) \<Rightarrow>
             (if is_IOError e then (tr @ [Log ERROR (''Error reading JPEG file: '' @ str_exn e)], Inr None)
              else (tr, Inl e)))
      else
        ([Log WARNING (''No extraction method defined for file type: '' @ file_type)], Inr None))"

section \<open>Signature tables\<close>

text \<open>
  A table of the annotated type \<^verbatim>\<open>Dict[str, List[str]]\<close>, in dict order, and the
  value \<^verbatim>\<open>json.load\<close> returns for it.
\<close>

type_synonym table = "(string \<times> string list) list"

definition table_json :: "table \<Rightarrow> json" where
  "table_json t = JObj (map (\<lambda>(label, sigs). (label, JArr (map JStr sigs))) t)"

text \<open>
  The (label, hex pattern) pairs of a table in the order of the specification: table
  iteration order, then pattern order within a label.
\<close>

definition entries :: "table \<Rightarrow> (string \<times> string) list" where
  "entries t = concat (map (\<lambda>(label, sigs). map (Pair label) sigs) t)"

text \<open>
  The specification's reading of a match: the hex string decodes to bytes that are a
  prefix of the buffer. A hex string that does not decode matches nothing.
\<close>

definition matches :: "byte list \<Rightarrow> string \<Rightarrow> bool" where
  "matches header s = (case fromhex s of None \<Rightarrow> False | Some pattern \<Rightarrow> prefix pattern header)"

definition undecodable :: "string \<Rightarrow> bool" where
  "undecodable s = (fromhex s = None)"

text \<open>
  The entries the scan passes before it reaches the first matching one (all of them
  when nothing matches), and whether they all decode.
\<close>

definition before_first_match :: "byte list \<Rightarrow> table \<Rightarrow> (string \<times> string) list" where
  "before_first_match header t = takeWhile (\<lambda>e. \<not> matches header (snd e)) (entries t)"

definition decodable_before_match :: "byte list \<Rightarrow> table \<Rightarrow> bool" where
  "decodable_before_match header t =
     list_all (\<lambda>e. \<not> undecodable (snd e)) (before_first_match header t)"

text \<open>The specification's tie-break rule: the label of the first matching pair.\<close>

definition first_match :: "byte list \<Rightarrow> table \<Rightarrow> string option" where
  "first_match header t = map_option fst (find (\<lambda>e. matches header (snd e)) (entries t))"

text \<open>
  The entries at which the scan of lines 69 to 73 ends: one that does not decode
  (line 71 raises) or one that matches (line 73 returns).
\<close>

definition stops :: "byte list \<Rightarrow> string \<times> string \<Rightarrow> bool" where
  "stops header e = (undecodable (snd e) \<or> matches header (snd e))"

section \<open>A concrete environment\<close>

text \<open>
  A small world on which the definitions are evaluated. Its signature sources hold the
  ASCII text
  \<^item> \<^verbatim>\<open>sigs.json\<close>: \<^verbatim>\<open>{"A":["AABB"],"B":["AA","BB"],"C":["AA"]}\<close>
  \<^item> \<^verbatim>\<open>badhex.json\<close>: \<^verbatim>\<open>{"A":["ZZ"]}\<close>
  \<^item> \<^verbatim>\<open>any.json\<close>: \<^verbatim>\<open>{"X":["FF"],"any":[""]}\<close>
  \<^item> \<^verbatim>\<open>zfirst.json\<close>: \<^verbatim>\<open>{"Z":["ZZ"],"A":["AA"]}\<close>
  \<^item> \<^verbatim>\<open>mixed.json\<close>: \<^verbatim>\<open>{"F":["FF"],"A":["AA"],"Z":["ZZ"]}\<close>
  \<^item> \<^verbatim>\<open>badany.json\<close>: \<^verbatim>\<open>{"A":["ZZ"],"any":[""]}\<close>
  \<^item> \<^verbatim>\<open>broken.json\<close>: \<^verbatim>\<open>{\<close>
  and \<^verbatim>\<open>latin.json\<close> holds the single byte \<open>0xFF\<close>, which is not UTF-8 text. The
  parser of this world knows these eight contents.
\<close>

definition sigs_table :: table where
  "sigs_table = [(''A'', [''AABB'']), (''B'', [''AA'', ''BB'']), (''C'', [''AA''])]"

definition badhex_table :: table where
  "badhex_table = [(''A'', [''ZZ''])]"

definition any_table :: table where
  "any_table = [(''X'', [''FF'']), (''any'', [[]])]"

definition zfirst_table :: table where
  "zfirst_table = [(''Z'', [''ZZ'']), (''A'', [''AA''])]"

definition mixed_table :: table where
  "mixed_table = [(''F'', [''FF'']), (''A'', [''AA'']), (''Z'', [''ZZ''])]"

definition badany_table :: table where
  "badany_table = [(''A'', [''ZZ'']), (''any'', [[]])]"

definition sigs_bytes :: "byte list" where
  "sigs_bytes =
     [0x7B, 0x22, 0x41, 0x22, 0x3A, 0x5B, 0x22, 0x41, 0x41, 0x42, 0x42, 0x22,
      0x5D, 0x2C, 0x22, 0x42, 0x22, 0x3A, 0x5B, 0x22, 0x41, 0x41, 0x22, 0x2C,
      0x22, 0x42, 0x42, 0x22, 0x5D, 0x2C, 0x22, 0x43, 0x22, 0x3A, 0x5B, 0x22,
      0x41, 0x41, 0x22, 0x5D, 0x7D]"

definition badhex_bytes :: "byte list" where
  "badhex_bytes =
     [0x7B, 0x22, 0x41, 0x22, 0x3A, 0x5B, 0x22, 0x5A, 0x5A, 0x22, 0x5D, 0x7D]"

definition any_bytes :: "byte list" where
  "any_bytes =
     [0x7B, 0x22, 0x58, 0x22, 0x3A, 0x5B, 0x22, 0x46, 0x46, 0x22, 0x5D, 0x2C,
      0x22, 0x61, 0x6E, 0x79, 0x22, 0x3A, 0x5B, 0x22, 0x22, 0x5D, 0x7D]"

definition zfirst_bytes :: "byte list" where
  "zfirst_bytes =
     [0x7B, 0x22, 0x5A, 0x22, 0x3A, 0x5B, 0x22, 0x5A, 0x5A, 0x22, 0x5D, 0x2C,
      0x22, 0x41, 0x22, 0x3A, 0x5B, 0x22, 0x41, 0x41, 0x22, 0x5D, 0x7D]"

definition mixed_bytes :: "byte list" where
  "mixed_bytes =
     [0x7B, 0x22, 0x46, 0x22, 0x3A, 0x5B, 0x22, 0x46, 0x46, 0x22, 0x5D, 0x2C,
      0x22, 0x41, 0x22, 0x3A, 0x5B, 0x22, 0x41, 0x41, 0x22, 0x5D, 0x2C, 0x22,
      0x5A, 0x22, 0x3A, 0x5B, 0x22, 0x5A, 0x5A, 0x22, 0x5D, 0x7D]"

definition badany_bytes :: "byte list" where
  "badany_bytes =
     [0x7B, 0x22, 0x41, 0x22, 0x3A, 0x5B, 0x22, 0x5A, 0x5A, 0x22, 0x5D, 0x2C,
      0x22, 0x61, 0x6E, 0x79, 0x22, 0x3A, 0x5B, 0x22, 0x22, 0x5D, 0x7D]"

definition example_json_load :: "byte list \<Rightarrow> exn + json" where
  "example_json_load bs =
     (if bs = sigs_bytes then Inr (table_json sigs_table)
      else if bs = badhex_bytes then Inr (table_json badhex_table)
      else if bs = any_bytes then Inr (table_json any_table)
      else if bs = zfirst_bytes then Inr (table_json zfirst_table)
      else if bs = mixed_bytes then Inr (table_json mixed_table)
      else if bs = badany_bytes then Inr (table_json badany_table)
      else if bs = [0x7B] then
        Inl (JSONDecodeError ''Expecting property name enclosed in double quotes: line 1 column 2 (char 1)'')
      else if bs = [0xFF] then
        Inl (ValueError (quote ''utf-8'' @ '' codec can't decode byte 0xff in position 0: invalid start byte''))
      else Inl (JSONDecodeError ''Expecting value: line 1 column 1 (char 0)''))"

definition example_files :: "path \<Rightarrow> node" where
  "example_files p =
     (if p = ''sigs.json'' then File sigs_bytes
      else if p = ''badhex.json'' then File badhex_bytes
      else if p = ''any.json'' then File any_bytes
      else if p = ''zfirst.json'' then File zfirst_bytes
      else if p = ''mixed.json'' then File mixed_bytes
      else if p = ''badany.json'' then File badany_bytes
      else if p = ''broken.json'' then File [0x7B]
      else if p = ''latin.json'' then File [0xFF]
      else if p = ''photo.jpg'' then File [0xFF, 0xD8, 0xFF, 0xE0]
      else if p = ''tiny.bin'' then File [0xAA]
      else if p = ''data.bin'' then File [0xAA, 0xBB, 0xCC]
      else if p = ''empty.bin'' then File []
      else if p = ''report.doc'' then File [0xD0, 0xCF, 0x11, 0xE0]
      else if p = ''empty.ole'' then File [0xD0, 0xCF, 0x11, 0xE0]
      else if p = ''locked.jpg'' then Unreadable ''[Errno 13] Permission denied''
      else Missing)"

definition report_doc :: ole where
  "report_doc =
     \<lparr>listdir = [[''WordDocument''], [''Macros'', ''dir'']],
      openstream_read = (\<lambda>name.
         if name = ''WordDocument'' then Inr [0x48, 0x69]
         else Inl (OleFileIOError ''file not found''))\<rparr>"

definition empty_ole :: ole where
  "empty_ole = \<lparr>listdir = [], openstream_read = (\<lambda>name. Inl (OleFileIOError ''file not found''))\<rparr>"

definition example_env :: env where
  "example_env =
     \<lparr>files = example_files,
      json_load = example_json_load,
      from_buffer = (\<lambda>header. Inr ''application/octet-stream''),
      isOleFile = (\<lambda>p.
         if example_files p = Missing then Inl (FileNotFoundError ''[Errno 2] No such file or directory'')
         else Inr (p = ''report.doc'' \<or> p = ''empty.ole'')),
      OleFileIO = (\<lambda>p.
         if p = ''report.doc'' then Inr report_doc
         else if p = ''empty.ole'' then Inr empty_ole
         else Inl (OleFileIOError ''not an OLE2 structured storage file''))\<rparr>"

section \<open>The scan as a search\<close>

lemma startswith_prefix: "startswith h p = prefix p h"
  unfolding startswith_def prefix_def by (metis append_eq_conv_conj)

lemma scan_signatures_find:
  "scan_signatures h (map JStr ps) =
     (case find (\<lambda>s. undecodable s \<or> matches h s) ps of
        None \<Rightarrow> Inr False
      | Some s \<Rightarrow> if undecodable s then Inl hex_fault else Inr True)"
  by (induction ps) (auto simp: undecodable_def matches_def startswith_prefix hex_fault_def split: option.splits)

lemma find_Pair:
  "find P (map (Pair l) ps) = map_option (Pair l) (find (\<lambda>s. P (l, s)) ps)"
  by (induction ps) auto

lemma find_app:
  "find P (xs @ ys) = (case find P xs of None \<Rightarrow> find P ys | Some x \<Rightarrow> Some x)"
  by (induction xs) auto

lemma scan_items_find:
  "scan_items h (map (\<lambda>(label, sigs). (label, JArr (map JStr sigs))) t) =
     (case find (stops h) (entries t) of
        None \<Rightarrow> Inr None
      | Some e \<Rightarrow> if undecodable (snd e) then Inl hex_fault else Inr (Some (fst e)))"
proof (induction t)
  case Nil
  then show ?case by (simp add: entries_def)
next
  case (Cons a t)
  obtain l ps where a: "a = (l, ps)" by (cases a)
  have e: "entries ((l, ps) # t) = map (Pair l) ps @ entries t"
    by (simp add: entries_def)
  have f: "find (stops h) (map (Pair l) ps) =
             map_option (Pair l) (find (\<lambda>s. undecodable s \<or> matches h s) ps)"
    by (simp add: find_Pair stops_def)
  show ?case
  proof (cases "find (\<lambda>s. undecodable s \<or> matches h s) ps")
    case None
    then show ?thesis
      using Cons.IH by (simp add: a e f find_app scan_signatures_find)
  next
    case (Some s)
    then show ?thesis
      by (simp add: a e f find_app scan_signatures_find)
  qed
qed

lemma scan_table_find:
  "scan_table h (table_json t) =
     (case find (stops h) (entries t) of
        None \<Rightarrow> Inr None
      | Some e \<Rightarrow> if undecodable (snd e) then Inl hex_fault else Inr (Some (fst e)))"
  by (simp add: scan_table_def table_json_def scan_items_find)

lemma find_stops_list:
  "list_all (\<lambda>e. \<not> undecodable (snd e)) (takeWhile (\<lambda>e. \<not> matches h (snd e)) xs) \<Longrightarrow>
   find (stops h) xs = find (\<lambda>e. matches h (snd e)) xs"
  by (induction xs) (auto simp: stops_def)

lemma find_stops_bad_list:
  "\<not> list_all (\<lambda>e. \<not> undecodable (snd e)) (takeWhile (\<lambda>e. \<not> matches h (snd e)) xs) \<Longrightarrow>
   \<exists>e. find (stops h) xs = Some e \<and> undecodable (snd e)"
  by (induction xs) (auto simp: stops_def split: if_splits)

lemma find_stops_decodable:
  "decodable_before_match h t \<Longrightarrow>
   find (stops h) (entries t) = find (\<lambda>e. matches h (snd e)) (entries t)"
  unfolding decodable_before_match_def before_first_match_def by (rule find_stops_list)

lemma find_stops_undecodable:
  "\<not> decodable_before_match h t \<Longrightarrow>
   \<exists>e. find (stops h) (entries t) = Some e \<and> undecodable (snd e)"
  unfolding decodable_before_match_def before_first_match_def by (rule find_stops_bad_list)

lemma identify_scan:
  "files env p = File content \<Longrightarrow> truthy (signature_db self) \<Longrightarrow>
   snd (identify_file_type env self p) = scan_table (take 1024 content) (signatures self)"
  by (simp add: identify_file_type_def exists_def read_file_def Let_def split: sum.splits option.splits)

lemma init_signature_db: "snd (init env db) = Inr self \<Longrightarrow> signature_db self = db"
  by (auto simp: init_def split: if_splits option.splits prod.splits sum.splits exn.splits)

lemma find_split_fwd:
  "find P xs = Some x \<Longrightarrow> \<exists>pre post. xs = pre @ x # post \<and> P x \<and> list_all (\<lambda>y. \<not> P y) pre"
proof (induction xs)
  case Nil
  then show ?case by simp
next
  case (Cons a xs)
  show ?case
  proof (cases "P a")
    case True
    with Cons.prems have "a = x" by simp
    with True have "a # xs = [] @ x # xs \<and> P x \<and> list_all (\<lambda>y. \<not> P y) []" by simp
    then show ?thesis by blast
  next
    case False
    with Cons.prems have "find P xs = Some x" by simp
    from Cons.IH [OF this] obtain pre post
      where "xs = pre @ x # post" "P x" "list_all (\<lambda>y. \<not> P y) pre" by blast
    with False have "a # xs = (a # pre) @ x # post \<and> P x \<and> list_all (\<lambda>y. \<not> P y) (a # pre)"
      by simp
    then show ?thesis by blast
  qed
qed

lemma find_split_bwd:
  "P x \<Longrightarrow> list_all (\<lambda>y. \<not> P y) pre \<Longrightarrow> find P (pre @ x # post) = Some x"
  by (induction pre) auto

lemma find_None_all: "find P xs = None \<longleftrightarrow> list_all (\<lambda>y. \<not> P y) xs"
  by (induction xs) auto

lemma short_no_startswith: "length h < length p \<Longrightarrow> \<not> startswith h p"
proof
  assume l: "length h < length p" and s: "startswith h p"
  from s have "length (take (length p) h) = length p" by (simp add: startswith_def)
  with l show False by simp
qed

lemma matches_startswith:
  "matches h s \<longleftrightarrow> (\<exists>pattern. fromhex s = Some pattern \<and> startswith h pattern)"
  by (auto simp: matches_def startswith_prefix split: option.splits)

lemma identify_loaded:
  assumes "truthy db" and "snd (init env0 db) = Inr self" and "signatures self = table_json t"
      and "files env file_path = File content"
  shows "snd (identify_file_type env self file_path) =
           (case find (stops (take 1024 content)) (entries t) of
              None \<Rightarrow> Inr None
            | Some e \<Rightarrow> if undecodable (snd e) then Inl hex_fault else Inr (Some (fst e)))"
proof -
  from assms(2) have "signature_db self = db" by (rule init_signature_db)
  with assms(1) have "truthy (signature_db self)" by simp
  from identify_scan [OF assms(4) this] show ?thesis
    by (simp add: assms(3) scan_table_find)
qed

section \<open>Evaluation in the concrete environment\<close>

lemmas hex_eval = hexval_def is_space_def startswith_def

lemmas scan_eval = identify_file_type_def exists_def read_file_def scan_table_def table_json_def

lemmas world = example_env_def example_files_def example_json_load_def
  sigs_bytes_def badhex_bytes_def any_bytes_def zfirst_bytes_def mixed_bytes_def badany_bytes_def

lemma init_sigs:
  "snd (init example_env (Some ''sigs.json'')) =
     Inr \<lparr>signature_db = Some ''sigs.json'', signatures = table_json sigs_table\<rparr>"
  by (simp add: init_def load_signatures_def read_file_def world)

lemma init_badhex:
  "snd (init example_env (Some ''badhex.json'')) =
     Inr \<lparr>signature_db = Some ''badhex.json'', signatures = table_json badhex_table\<rparr>"
  by (simp add: init_def load_signatures_def read_file_def world)

lemma init_any:
  "snd (init example_env (Some ''any.json'')) =
     Inr \<lparr>signature_db = Some ''any.json'', signatures = table_json any_table\<rparr>"
  by (simp add: init_def load_signatures_def read_file_def world)

lemma init_mixed:
  "snd (init example_env (Some ''mixed.json'')) =
     Inr \<lparr>signature_db = Some ''mixed.json'', signatures = table_json mixed_table\<rparr>"
  by (simp add: init_def load_signatures_def read_file_def world)

lemma init_badany:
  "snd (init example_env (Some ''badany.json'')) =
     Inr \<lparr>signature_db = Some ''badany.json'', signatures = table_json badany_table\<rparr>"
  by (simp add: init_def load_signatures_def read_file_def world)

section \<open>Handles\<close>

lemma identify_releases_handles:
  "open_handles (fst (identify_file_type env self file_path)) = []"
  by (simp add: identify_file_type_def read_file_def open_handles_def Let_def
      split: node.splits sum.splits option.splits)

lemma extract_other_releases_handles:
  "file_type \<noteq> ''application/x-ole-storage'' \<Longrightarrow>
   open_handles (fst (extract_data env file_path file_type)) = []"
  by (simp add: extract_data_def read_file_def open_handles_def split: node.splits)

lemma extract_ole_stream_keeps_handle:
  assumes "isOleFile env file_path = Inr True"
      and "OleFileIO env file_path = Inr container"
      and "first_stream (listdir container) = Some name"
  shows "open_handles (fst (extract_data env file_path ''application/x-ole-storage'')) =
           [OleHandle file_path]"
  using assms
  by (simp add: extract_data_def extract_ole_def open_handles_def split: sum.splits exn.splits)

section \<open>Identification against a signature table\<close>

text \<open>
  In this section a table is loaded when the constructor has returned a scanner for a
  non-empty source path (\<open>truthy db\<close>, \<open>snd (init env0 db) = Inr self\<close>) and the
  parsed source has the annotated type (\<open>signatures self = table_json t\<close>). The
  file is looked up in an environment \<open>env\<close> that may differ from the one of the
  construction.
\<close>

text \<open>
  Claim C1. A buffer strictly shorter than a pattern does not start with it. With a
  loaded table and an existing readable file, whenever \<^verbatim>\<open>identify_file_type\<close>
  returns a label, the entry at which the scan stopped carries that label and a
  pattern that decodes, is a prefix of the bytes read (at most 1024) and is no longer
  than them; and when every pattern of the table is longer than the bytes read, the
  result is \<^verbatim>\<open>None\<close>.
\<close>

theorem short_prefix_never_matches:
  assumes "truthy db" and "snd (init env0 db) = Inr self" and "signatures self = table_json t"
      and "files env file_path = File content"
  shows "(\<forall>pattern. length (take 1024 content) < length pattern \<longrightarrow>
            \<not> startswith (take 1024 content) pattern)
       \<and> (\<forall>label. snd (identify_file_type env self file_path) = Inr (Some label) \<longrightarrow>
            (\<exists>pre s post pattern.
               entries t = pre @ (label, s) # post \<and>
               list_all (\<lambda>e. \<not> stops (take 1024 content) e) pre \<and>
               fromhex s = Some pattern \<and>
               startswith (take 1024 content) pattern \<and>
               length pattern \<le> length (take 1024 content)))
       \<and> (list_all (\<lambda>e. case fromhex (snd e) of None \<Rightarrow> False
                          | Some pattern \<Rightarrow> length (take 1024 content) < length pattern) (entries t) \<longrightarrow>
            snd (identify_file_type env self file_path) = Inr None)"
proof (intro conjI allI impI)
  fix pattern :: "byte list"
  assume "length (take 1024 content) < length pattern"
  then show "\<not> startswith (take 1024 content) pattern" by (rule short_no_startswith)
next
  fix label
  assume r: "snd (identify_file_type env self file_path) = Inr (Some label)"
  let ?h = "take 1024 content"
  from r identify_loaded [OF assms]
  obtain e where f: "find (stops ?h) (entries t) = Some e" and d: "\<not> undecodable (snd e)"
    and l: "fst e = label"
    by (auto split: option.splits if_splits)
  from find_split_fwd [OF f] obtain pre post
    where sp: "entries t = pre @ e # post" and st: "stops ?h e"
      and n: "list_all (\<lambda>y. \<not> stops ?h y) pre" by blast
  from st d have "matches ?h (snd e)" by (simp add: stops_def)
  then obtain pattern where p: "fromhex (snd e) = Some pattern" and sw: "startswith ?h pattern"
    by (auto simp: matches_startswith)
  from sw have "\<not> length ?h < length pattern" using short_no_startswith by blast
  then have le: "length pattern \<le> length ?h" by (rule leI)
  from sp l have "entries t = pre @ (label, snd e) # post" by auto
  with n p sw le
  show "\<exists>pre s post pattern.
               entries t = pre @ (label, s) # post \<and>
               list_all (\<lambda>e. \<not> stops ?h e) pre \<and>
               fromhex s = Some pattern \<and>
               startswith ?h pattern \<and>
               length pattern \<le> length ?h"
    by blast
next
  let ?h = "take 1024 content"
  assume a: "list_all (\<lambda>e. case fromhex (snd e) of None \<Rightarrow> False
                          | Some pattern \<Rightarrow> length ?h < length pattern) (entries t)"
  have "list_all (\<lambda>e. \<not> stops ?h e) (entries t)"
    unfolding list_all_iff
  proof
    fix e assume "e \<in> set (entries t)"
    with a obtain pattern where p: "fromhex (snd e) = Some pattern" and l: "length ?h < length pattern"
      by (auto simp: list_all_iff split: option.splits)
    from l have "\<not> startswith ?h pattern" by (rule short_no_startswith)
    with p show "\<not> stops ?h e"
      by (simp add: stops_def undecodable_def matches_startswith)
  qed
  then have "find (stops ?h) (entries t) = None" by (simp add: find_None_all)
  with identify_loaded [OF assms] show "snd (identify_file_type env self file_path) = Inr None"
    by simp
qed

theorem short_prefix_never_matches_witness:
  "\<not> startswith (take 1024 [0xAA]) [0xAA, 0xBB] \<and>
   snd (identify_file_type example_env
          \<lparr>signature_db = Some ''sigs.json'', signatures = table_json sigs_table\<rparr> ''tiny.bin'')
     = Inr (Some ''B'') \<and>
   (\<exists>pre s post pattern.
      entries sigs_table = pre @ (''B'', s) # post \<and>
      list_all (\<lambda>e. \<not> stops (take 1024 [0xAA]) e) pre \<and>
      fromhex s = Some pattern \<and>
      startswith (take 1024 [0xAA]) pattern \<and>
      length pattern \<le> length (take 1024 [0xAA :: byte])) \<and>
   snd (identify_file_type example_env
          \<lparr>signature_db = Some ''sigs.json'', signatures = table_json sigs_table\<rparr> ''empty.bin'')
     = Inr None"
proof -
  let ?self = "\<lparr>signature_db = Some ''sigs.json'', signatures = table_json sigs_table\<rparr>"
  have h1: "truthy (Some ''sigs.json'')" by simp
  have h3: "signatures ?self = table_json sigs_table" by simp
  have f1: "files example_env ''tiny.bin'' = File [0xAA]" by (simp add: world)
  have f2: "files example_env ''empty.bin'' = File []" by (simp add: world)
  note t1 = short_prefix_never_matches [OF h1 init_sigs h3 f1]
  note t2 = short_prefix_never_matches [OF h1 init_sigs h3 f2]
  have r: "snd (identify_file_type example_env ?self ''tiny.bin'') = Inr (Some ''B'')"
    by (simp add: scan_eval world sigs_table_def hex_eval)
  have a: "list_all (\<lambda>e. case fromhex (snd e) of None \<Rightarrow> False
                          | Some pattern \<Rightarrow> length (take 1024 ([] :: byte list)) < length pattern)
             (entries sigs_table)"
    by (simp add: entries_def sigs_table_def hex_eval)
  from t1 r a t2 show ?thesis by simp
qed

text \<open>
  Claim C2, as stated, fails: the source \<^verbatim>\<open>{"Z":["ZZ"],"A":["AA"]}\<close> is loaded, the
  pattern \<^verbatim>\<open>AA\<close> of label \<^verbatim>\<open>A\<close> is a prefix of \<^verbatim>\<open>data.bin\<close> and is the first
  matching pattern, yet \<^verbatim>\<open>identify_file_type\<close> raises the \<^verbatim>\<open>ValueError\<close> of
  \<^verbatim>\<open>bytes.fromhex\<close> at the entry \<^verbatim>\<open>ZZ\<close> before it and returns no label.
\<close>

theorem first_match_not_returned:
  "snd (init example_env (Some ''zfirst.json'')) =
     Inr \<lparr>signature_db = Some ''zfirst.json'', signatures = table_json zfirst_table\<rparr> \<and>
   files example_env ''data.bin'' = File [0xAA, 0xBB, 0xCC] \<and>
   (''A'', ''AA'') \<in> set (entries zfirst_table) \<and>
   matches (take 1024 [0xAA, 0xBB, 0xCC]) ''AA'' \<and>
   first_match (take 1024 [0xAA, 0xBB, 0xCC]) zfirst_table = Some ''A'' \<and>
   snd (identify_file_type example_env
          \<lparr>signature_db = Some ''zfirst.json'', signatures = table_json zfirst_table\<rparr> ''data.bin'')
     = Inl (ValueError ''non-hexadecimal number found in fromhex() arg'')"
  by (simp add: init_def load_signatures_def scan_eval world zfirst_table_def hex_eval hex_fault_def
      entries_def matches_def first_match_def)

text \<open>
  Claim C2, amended. With a loaded table and an existing readable file, if some pattern
  is a prefix of the first 1024 bytes and every hex string before the first matching
  entry decodes, \<^verbatim>\<open>identify_file_type\<close> returns the label of the first matching
  entry in the order of \<open>entries\<close> (dict order, then list order): no entry before
  it matches. Hex strings after that entry need not decode. The outcome of a call
  depends on the table and on the first 1024 bytes only, so a second call on the same
  bytes, in any environment and under any path, has the same outcome.
\<close>

theorem identify_first_match:
  assumes "truthy db" and "snd (init env0 db) = Inr self" and "signatures self = table_json t"
      and "files env file_path = File content"
      and "list_ex (\<lambda>e. matches (take 1024 content) (snd e)) (entries t)"
      and "decodable_before_match (take 1024 content) t"
  shows "(\<exists>pre label s post.
            entries t = pre @ (label, s) # post \<and>
            list_all (\<lambda>e. \<not> matches (take 1024 content) (snd e)) pre \<and>
            matches (take 1024 content) s \<and>
            snd (identify_file_type env self file_path) = Inr (Some label) \<and>
            first_match (take 1024 content) t = Some label)
       \<and> (\<forall>env' path' content'.
            files env' path' = File content' \<and> take 1024 content' = take 1024 content \<longrightarrow>
            snd (identify_file_type env' self path') = snd (identify_file_type env self file_path))"
proof
  let ?h = "take 1024 content"
  let ?M = "\<lambda>e. matches ?h (snd e)"
  from assms(5) have "find ?M (entries t) \<noteq> None"
    by (simp add: find_None_all list_all_iff list_ex_iff)
  then obtain e where f: "find ?M (entries t) = Some e" by auto
  from find_split_fwd [OF f] obtain pre post
    where sp: "entries t = pre @ e # post" and m: "?M e" and n: "list_all (\<lambda>y. \<not> ?M y) pre"
    by blast
  from m have d: "\<not> undecodable (snd e)"
    by (auto simp: matches_def undecodable_def split: option.splits)
  from f have "find (stops ?h) (entries t) = Some e"
    by (simp add: find_stops_decodable [OF assms(6)])
  with identify_loaded [OF assms(1-4)] d
  have r: "snd (identify_file_type env self file_path) = Inr (Some (fst e))" by simp
  from f have fm: "first_match ?h t = Some (fst e)" by (simp add: first_match_def)
  from sp have "entries t = pre @ (fst e, snd e) # post" by simp
  with n m r fm
  show "\<exists>pre label s post.
            entries t = pre @ (label, s) # post \<and>
            list_all (\<lambda>e. \<not> matches ?h (snd e)) pre \<and>
            matches ?h s \<and>
            snd (identify_file_type env self file_path) = Inr (Some label) \<and>
            first_match ?h t = Some label"
    by blast
next
  show "\<forall>env' path' content'.
            files env' path' = File content' \<and> take 1024 content' = take 1024 content \<longrightarrow>
            snd (identify_file_type env' self path') = snd (identify_file_type env self file_path)"
  proof (intro allI impI)
    fix env' :: env and path' content'
    assume a: "files env' path' = File content' \<and> take 1024 content' = take 1024 content"
    then have f': "files env' path' = File content'" by simp
    from identify_loaded [OF assms(1,2,3) f'] identify_loaded [OF assms(1-4)] a
    show "snd (identify_file_type env' self path') = snd (identify_file_type env self file_path)"
      by simp
  qed
qed

theorem identify_first_match_witness:
  "list_ex (\<lambda>e. matches (take 1024 [0xAA, 0xBB, 0xCC]) (snd e)) (entries mixed_table) \<and>
   before_first_match (take 1024 [0xAA, 0xBB, 0xCC]) mixed_table = [(''F'', ''FF'')] \<and>
   decodable_before_match (take 1024 [0xAA, 0xBB, 0xCC]) mixed_table \<and>
   undecodable ''ZZ'' \<and> (''Z'', ''ZZ'') \<in> set (entries mixed_table) \<and>
   first_match (take 1024 [0xAA, 0xBB, 0xCC]) mixed_table = Some ''A'' \<and>
   snd (identify_file_type example_env
          \<lparr>signature_db = Some ''mixed.json'', signatures = table_json mixed_table\<rparr> ''data.bin'')
     = Inr (Some ''A'')"
proof -
  let ?self = "\<lparr>signature_db = Some ''mixed.json'', signatures = table_json mixed_table\<rparr>"
  have h1: "truthy (Some ''mixed.json'')" by simp
  have h3: "signatures ?self = table_json mixed_table" by simp
  have f: "files example_env ''data.bin'' = File [0xAA, 0xBB, 0xCC]" by (simp add: world)
  have m: "list_ex (\<lambda>e. matches (take 1024 [0xAA, 0xBB, 0xCC]) (snd e)) (entries mixed_table)"
    by (simp add: entries_def mixed_table_def matches_def hex_eval)
  have b: "before_first_match (take 1024 [0xAA, 0xBB, 0xCC]) mixed_table = [(''F'', ''FF'')]"
    by (simp add: before_first_match_def entries_def mixed_table_def matches_def hex_eval)
  have d: "decodable_before_match (take 1024 [0xAA, 0xBB, 0xCC]) mixed_table"
    by (simp add: decodable_before_match_def before_first_match_def entries_def mixed_table_def
        matches_def undecodable_def hex_eval)
  have u: "undecodable ''ZZ'' \<and> (''Z'', ''ZZ'') \<in> set (entries mixed_table)"
    by (simp add: undecodable_def entries_def mixed_table_def hex_eval)
  have fm: "first_match (take 1024 [0xAA, 0xBB, 0xCC]) mixed_table = Some ''A''"
    by (simp add: first_match_def entries_def mixed_table_def matches_def hex_eval)
  from identify_first_match [OF h1 init_mixed h3 f m d] fm m b d u
  show ?thesis by auto
qed

text \<open>
  Claim C10, as stated, fails: the source \<^verbatim>\<open>{"A":["ZZ"],"any":[""]}\<close> is loaded and
  holds the empty pattern under the label \<^verbatim>\<open>any\<close>, yet on the readable file
  \<^verbatim>\<open>empty.bin\<close> \<^verbatim>\<open>identify_file_type\<close> returns no label: it raises the
  \<^verbatim>\<open>ValueError\<close> of \<^verbatim>\<open>bytes.fromhex\<close> at the entry \<^verbatim>\<open>ZZ\<close>.
\<close>

theorem empty_pattern_table_raises:
  "snd (init example_env (Some ''badany.json'')) =
     Inr \<lparr>signature_db = Some ''badany.json'', signatures = table_json badany_table\<rparr> \<and>
   (''any'', []) \<in> set (entries badany_table) \<and>
   fromhex [] = Some [] \<and>
   files example_env ''empty.bin'' = File [] \<and>
   snd (identify_file_type example_env
          \<lparr>signature_db = Some ''badany.json'', signatures = table_json badany_table\<rparr> ''empty.bin'')
     = Inl (ValueError ''non-hexadecimal number found in fromhex() arg'')"
  by (simp add: init_def load_signatures_def scan_eval world badany_table_def hex_eval hex_fault_def
      entries_def)

text \<open>
  Claim C10, amended. With a loaded table that holds a hex string decoding to the empty
  byte string, \<^verbatim>\<open>identify_file_type\<close> never returns \<^verbatim>\<open>None\<close> on an existing
  readable file, the empty file included: when every hex string before the first
  matching entry decodes, it returns the label of the first matching entry, and
  otherwise it raises the \<^verbatim>\<open>ValueError\<close> of \<^verbatim>\<open>bytes.fromhex\<close>.
\<close>

theorem empty_pattern_always_identifies:
  assumes "truthy db" and "snd (init env0 db) = Inr self" and "signatures self = table_json t"
      and "files env file_path = File content"
      and "list_ex (\<lambda>e. fromhex (snd e) = Some []) (entries t)"
  shows "snd (identify_file_type env self file_path) \<noteq> Inr None
       \<and> (decodable_before_match (take 1024 content) t \<longrightarrow>
            (\<exists>label. snd (identify_file_type env self file_path) = Inr (Some label) \<and>
                      first_match (take 1024 content) t = Some label))
       \<and> (\<not> decodable_before_match (take 1024 content) t \<longrightarrow>
            snd (identify_file_type env self file_path) = Inl hex_fault)"
proof (intro conjI impI)
  let ?h = "take 1024 content"
  from assms(5) obtain e0 where "e0 \<in> set (entries t)" and "fromhex (snd e0) = Some []"
    by (auto simp: list_ex_iff)
  then have m0: "e0 \<in> set (entries t)" "matches ?h (snd e0)" by (simp_all add: matches_def)
  then have "\<not> list_all (\<lambda>y. \<not> stops ?h y) (entries t)"
    by (auto simp: list_all_iff stops_def)
  then obtain e where f: "find (stops ?h) (entries t) = Some e"
    by (auto simp: find_None_all [symmetric])
  with identify_loaded [OF assms(1-4)]
  show "snd (identify_file_type env self file_path) \<noteq> Inr None" by simp
  {
    assume ok: "decodable_before_match ?h t"
    from f have fm: "find (\<lambda>e. matches ?h (snd e)) (entries t) = Some e"
      by (simp add: find_stops_decodable [OF ok])
    from find_split_fwd [OF fm] have "matches ?h (snd e)" by auto
    then have d: "\<not> undecodable (snd e)"
      by (auto simp: matches_def undecodable_def split: option.splits)
    from fm have "first_match ?h t = Some (fst e)" by (simp add: first_match_def)
    moreover from f d identify_loaded [OF assms(1-4)]
    have "snd (identify_file_type env self file_path) = Inr (Some (fst e))" by simp
    ultimately show "\<exists>label. snd (identify_file_type env self file_path) = Inr (Some label) \<and>
                      first_match ?h t = Some label" by blast
  }
  {
    assume bad: "\<not> decodable_before_match ?h t"
    from find_stops_undecodable [OF bad] obtain e'
      where "find (stops ?h) (entries t) = Some e'" and "undecodable (snd e')" by blast
    with identify_loaded [OF assms(1-4)]
    show "snd (identify_file_type env self file_path) = Inl hex_fault" by simp
  }
qed

theorem empty_pattern_always_identifies_witness:
  "list_ex (\<lambda>e. fromhex (snd e) = Some []) (entries any_table) \<and>
   decodable_before_match (take 1024 []) any_table \<and>
   first_match (take 1024 []) any_table = Some ''any'' \<and>
   snd (identify_file_type example_env
          \<lparr>signature_db = Some ''any.json'', signatures = table_json any_table\<rparr> ''empty.bin'')
     = Inr (Some ''any'') \<and>
   list_ex (\<lambda>e. fromhex (snd e) = Some []) (entries badany_table) \<and>
   \<not> decodable_before_match (take 1024 []) badany_table \<and>
   snd (identify_file_type example_env
          \<lparr>signature_db = Some ''badany.json'', signatures = table_json badany_table\<rparr> ''empty.bin'')
     = Inl hex_fault"
proof -
  let ?self = "\<lparr>signature_db = Some ''any.json'', signatures = table_json any_table\<rparr>"
  let ?self' = "\<lparr>signature_db = Some ''badany.json'', signatures = table_json badany_table\<rparr>"
  have h1: "truthy (Some ''any.json'')" by simp
  have h1': "truthy (Some ''badany.json'')" by simp
  have h3: "signatures ?self = table_json any_table" by simp
  have h3': "signatures ?self' = table_json badany_table" by simp
  have f: "files example_env ''empty.bin'' = File []" by (simp add: world)
  have e: "list_ex (\<lambda>e. fromhex (snd e) = Some []) (entries any_table)"
    by (simp add: entries_def any_table_def hex_eval)
  have e': "list_ex (\<lambda>e. fromhex (snd e) = Some []) (entries badany_table)"
    by (simp add: entries_def badany_table_def hex_eval)
  have d: "decodable_before_match (take 1024 []) any_table"
    by (simp add: decodable_before_match_def before_first_match_def entries_def any_table_def
        matches_def undecodable_def hex_eval)
  have d': "\<not> decodable_before_match (take 1024 []) badany_table"
    by (simp add: decodable_before_match_def before_first_match_def entries_def badany_table_def
        matches_def undecodable_def hex_eval)
  have fm: "first_match (take 1024 []) any_table = Some ''any''"
    by (simp add: first_match_def entries_def any_table_def matches_def hex_eval)
  from empty_pattern_always_identifies [OF h1 init_any h3 f e]
    empty_pattern_always_identifies [OF h1' init_badany h3' f e'] fm e e' d d'
  show ?thesis by auto
qed

text \<open>
  Claim C4, as stated, fails: the constructor loads the source \<^verbatim>\<open>{"A":["ZZ"]}\<close>
  without complaint, and \<^verbatim>\<open>identify_file_type\<close> then raises the \<^verbatim>\<open>ValueError\<close>
  of \<^verbatim>\<open>bytes.fromhex\<close> on the file \<^verbatim>\<open>data.bin\<close>.
\<close>

theorem hex_fault_raised_by_identify:
  "snd (init example_env (Some ''badhex.json'')) =
     Inr \<lparr>signature_db = Some ''badhex.json'', signatures = table_json badhex_table\<rparr> \<and>
   snd (identify_file_type example_env
          \<lparr>signature_db = Some ''badhex.json'', signatures = table_json badhex_table\<rparr> ''data.bin'')
     = Inl (ValueError ''non-hexadecimal number found in fromhex() arg'')"
  by (simp add: init_def load_signatures_def scan_eval world badhex_table_def hex_eval hex_fault_def)

text \<open>
  Claim C4, amended. The constructor decodes no hex string: a source that parses to a
  table is loaded whatever its hex strings are. The strings are decoded by
  \<^verbatim>\<open>identify_file_type\<close>, in scan order, on every call; on an existing readable file
  the call raises the \<^verbatim>\<open>ValueError\<close> of \<^verbatim>\<open>bytes.fromhex\<close> exactly when the table
  has an entry that does not decode and every entry before it decodes and does not
  match.
\<close>

theorem hex_decoded_at_identify:
  assumes "p \<noteq> []" and "files env0 p = File bs" and "json_load env0 bs = Inr (table_json t)"
      and "files env file_path = File content"
  shows "snd (init env0 (Some p)) = Inr \<lparr>signature_db = Some p, signatures = table_json t\<rparr>
       \<and> (snd (identify_file_type env \<lparr>signature_db = Some p, signatures = table_json t\<rparr> file_path)
            = Inl hex_fault
          \<longleftrightarrow> (\<exists>pre e post. entries t = pre @ e # post \<and> undecodable (snd e) \<and>
                 list_all (\<lambda>e'. \<not> undecodable (snd e') \<and> \<not> matches (take 1024 content) (snd e')) pre))"
proof
  let ?h = "take 1024 content"
  let ?self = "\<lparr>signature_db = Some p, signatures = table_json t\<rparr>"
  show i: "snd (init env0 (Some p)) = Inr ?self"
    using assms(1-3) by (simp add: init_def load_signatures_def read_file_def)
  have tr: "truthy (Some p)" using assms(1) by simp
  have sg: "signatures ?self = table_json t" by simp
  note r = identify_loaded [OF tr i sg assms(4)]
  show "snd (identify_file_type env ?self file_path) = Inl hex_fault
          \<longleftrightarrow> (\<exists>pre e post. entries t = pre @ e # post \<and> undecodable (snd e) \<and>
                 list_all (\<lambda>e'. \<not> undecodable (snd e') \<and> \<not> matches ?h (snd e')) pre)"
  proof
    assume "snd (identify_file_type env ?self file_path) = Inl hex_fault"
    with r obtain e where f: "find (stops ?h) (entries t) = Some e" and u: "undecodable (snd e)"
      by (auto split: option.splits if_splits)
    from find_split_fwd [OF f] obtain pre post
      where sp: "entries t = pre @ e # post" and "list_all (\<lambda>y. \<not> stops ?h y) pre" by blast
    then have "list_all (\<lambda>e'. \<not> undecodable (snd e') \<and> \<not> matches ?h (snd e')) pre"
      by (simp add: stops_def)
    with u sp show "\<exists>pre e post. entries t = pre @ e # post \<and> undecodable (snd e) \<and>
                 list_all (\<lambda>e'. \<not> undecodable (snd e') \<and> \<not> matches ?h (snd e')) pre"
      by blast
  next
    assume "\<exists>pre e post. entries t = pre @ e # post \<and> undecodable (snd e) \<and>
                 list_all (\<lambda>e'. \<not> undecodable (snd e') \<and> \<not> matches ?h (snd e')) pre"
    then obtain pre e post where sp: "entries t = pre @ e # post" and u: "undecodable (snd e)"
      and n: "list_all (\<lambda>e'. \<not> undecodable (snd e') \<and> \<not> matches ?h (snd e')) pre" by blast
    from n have "list_all (\<lambda>y. \<not> stops ?h y) pre" by (simp add: stops_def)
    moreover from u have "stops ?h e" by (simp add: stops_def)
    ultimately have "find (stops ?h) (entries t) = Some e"
      by (simp add: sp find_split_bwd)
    with r u show "snd (identify_file_type env ?self file_path) = Inl hex_fault" by simp
  qed
qed

theorem hex_decoded_at_identify_witness:
  "snd (init example_env (Some ''badhex.json'')) =
     Inr \<lparr>signature_db = Some ''badhex.json'', signatures = table_json badhex_table\<rparr> \<and>
   entries badhex_table = [] @ (''A'', ''ZZ'') # [] \<and> undecodable ''ZZ'' \<and>
   snd (identify_file_type example_env
          \<lparr>signature_db = Some ''badhex.json'', signatures = table_json badhex_table\<rparr> ''tiny.bin'')
     = Inl hex_fault"
proof -
  have h1: "''badhex.json'' \<noteq> []" by simp
  have h2: "files example_env ''badhex.json'' = File badhex_bytes" by (simp add: world)
  have h3: "json_load example_env badhex_bytes = Inr (table_json badhex_table)" by (simp add: world)
  have f: "files example_env ''tiny.bin'' = File [0xAA]" by (simp add: world)
  have e: "entries badhex_table = [] @ (''A'', ''ZZ'') # []"
    by (simp add: entries_def badhex_table_def)
  have u: "undecodable ''ZZ''" by (simp add: undecodable_def hex_eval)
  have "\<exists>pre e post. entries badhex_table = pre @ e # post \<and> undecodable (snd e) \<and>
          list_all (\<lambda>e'. \<not> undecodable (snd e') \<and> \<not> matches (take 1024 [0xAA]) (snd e')) pre"
    using e u by (intro exI [of _ "[]"] exI [of _ "(''A'', ''ZZ'')"]) simp
  with hex_decoded_at_identify [OF h1 h2 h3 f] e u show ?thesis by simp
qed

text \<open>
  Claim C7. On a path that does not exist, \<^verbatim>\<open>identify_file_type\<close> returns
  \<^verbatim>\<open>None\<close> and raises nothing, whatever the scanner is; its only effect is one
  logged error, so no file is opened or read.
\<close>

theorem identify_missing_path:
  assumes "files env file_path = Missing"
  shows "identify_file_type env self file_path =
           ([Log ERROR (''File not found: '' @ file_path)], Inr None)"
  using assms by (simp add: identify_file_type_def exists_def)

theorem identify_missing_path_witness:
  "files example_env ''nowhere.bin'' = Missing \<and>
   identify_file_type example_env \<lparr>signature_db = None, signatures = JObj []\<rparr> ''nowhere.bin'' =
     ([Log ERROR ''File not found: nowhere.bin''], Inr None)"
proof -
  have h: "files example_env ''nowhere.bin'' = Missing"
    by (simp add: example_env_def example_files_def)
  show ?thesis
    using h identify_missing_path [OF h, of "\<lparr>signature_db = None, signatures = JObj []\<rparr>"] by simp
qed

section \<open>Construction errors\<close>

text \<open>
  Claim C8. For a non-empty source path (an empty path counts as no source at line
  33), a source file whose content \<^verbatim>\<open>json.load\<close> rejects with
  \<^verbatim>\<open>JSONDecodeError\<close> makes the constructor raise \<^verbatim>\<open>ValueError\<close>; a content
  that is not even text makes \<^verbatim>\<open>json.load\<close> raise a \<^verbatim>\<open>ValueError\<close> of its own,
  which leaves the constructor unchanged; a missing source file makes the constructor
  raise \<^verbatim>\<open>FileNotFoundError\<close>, a different exception. In each case no scanner is
  returned on which to call \<^verbatim>\<open>identify_file_type\<close>.
\<close>

theorem init_source_errors:
  assumes "p \<noteq> []"
  shows "(files env p = File bs \<and> json_load env bs = Inl (JSONDecodeError m) \<longrightarrow>
            snd (init env (Some p)) = Inl (ValueError (''Invalid JSON in signature database: '' @ m)))
       \<and> (files env p = File bs \<and> json_load env bs = Inl (ValueError m) \<longrightarrow>
            snd (init env (Some p)) = Inl (ValueError m))
       \<and> (files env p = Missing \<longrightarrow>
            snd (init env (Some p)) = Inl (FileNotFoundError (''Signature database not found: '' @ p)))"
  using assms by (simp add: init_def load_signatures_def read_file_def)

theorem init_source_errors_witness:
  "snd (init example_env (Some ''broken.json'')) =
     Inl (ValueError ''Invalid JSON in signature database: Expecting property name enclosed in double quotes: line 1 column 2 (char 1)'') \<and>
   snd (init example_env (Some ''latin.json'')) =
     Inl (ValueError (quote ''utf-8'' @ '' codec can't decode byte 0xff in position 0: invalid start byte'')) \<and>
   snd (init example_env (Some ''nowhere.json'')) =
     Inl (FileNotFoundError ''Signature database not found: nowhere.json'')"
proof -
  have h1: "''broken.json'' \<noteq> []" by simp
  have h2: "''latin.json'' \<noteq> []" by simp
  have h3: "''nowhere.json'' \<noteq> []" by simp
  have f1: "files example_env ''broken.json'' = File [0x7B]"
    by (simp add: world)
  have j1: "json_load example_env [0x7B] =
              Inl (JSONDecodeError ''Expecting property name enclosed in double quotes: line 1 column 2 (char 1)'')"
    by (simp add: world)
  have f2: "files example_env ''latin.json'' = File [0xFF]"
    by (simp add: world)
  have j2: "json_load example_env [0xFF] =
              Inl (ValueError (quote ''utf-8'' @ '' codec can't decode byte 0xff in position 0: invalid start byte''))"
    by (simp add: world)
  have f3: "files example_env ''nowhere.json'' = Missing"
    by (simp add: world)
  show ?thesis
    using init_source_errors [OF h1, of example_env "[0x7B]"
        "''Expecting property name enclosed in double quotes: line 1 column 2 (char 1)''"]
      init_source_errors [OF h2, of example_env "[0xFF]"
        "quote ''utf-8'' @ '' codec can't decode byte 0xff in position 0: invalid start byte''"]
      init_source_errors [OF h3, of example_env]
      f1 j1 f2 j2 f3
    by simp
qed

section \<open>Extraction\<close>

text \<open>
  Claim C3. For an existing readable file and the label \<^verbatim>\<open>image/jpeg\<close>,
  \<^verbatim>\<open>extract_data\<close> returns exactly the content of the file; the file is opened and
  closed, and nothing about the content is checked.
\<close>

theorem extract_jpeg_whole_file:
  assumes "files env file_path = File content"
  shows "extract_data env file_path ''image/jpeg'' =
           ([FileOpen file_path, FileClose file_path, Log INFO ''Extracted all data as JPEG content.''],
            Inr (Some content))"
  using assms by (simp add: extract_data_def read_file_def)

theorem extract_jpeg_whole_file_witness:
  "files example_env ''photo.jpg'' = File [0xFF, 0xD8, 0xFF, 0xE0] \<and>
   snd (extract_data example_env ''photo.jpg'' ''image/jpeg'') = Inr (Some [0xFF, 0xD8, 0xFF, 0xE0])"
proof -
  have h: "files example_env ''photo.jpg'' = File [0xFF, 0xD8, 0xFF, 0xE0]"
    by (simp add: example_env_def example_files_def)
  show ?thesis
    using h extract_jpeg_whole_file [OF h] by simp
qed

text \<open>
  Claim C5, as stated, fails: \<^verbatim>\<open>extract_data\<close> has one return value, \<^verbatim>\<open>None\<close>, for
  a label without a strategy and for a failure. The label \<^verbatim>\<open>text/plain\<close> on
  \<^verbatim>\<open>photo.jpg\<close> and the unreadable \<^verbatim>\<open>locked.jpg\<close> under \<^verbatim>\<open>image/jpeg\<close> give the
  same value.
\<close>

theorem unsupported_same_value_as_failure:
  "snd (extract_data example_env ''photo.jpg'' ''text/plain'') = Inr None \<and>
   snd (extract_data example_env ''locked.jpg'' ''image/jpeg'') = Inr None"
  by (simp add: extract_data_def read_file_def example_env_def example_files_def)

text \<open>
  Claim C5, amended. For every path and every label other than
  \<^verbatim>\<open>application/x-ole-storage\<close> and \<^verbatim>\<open>image/jpeg\<close>, \<^verbatim>\<open>extract_data\<close> returns
  \<^verbatim>\<open>None\<close>, the value it also returns for a failure; it raises nothing, touches no
  file, whether the path exists or not, and logs one warning that names the label.
\<close>

theorem extract_unsupported_label:
  assumes "file_type \<noteq> ''application/x-ole-storage''" and "file_type \<noteq> ''image/jpeg''"
  shows "extract_data env file_path file_type =
           ([Log WARNING (''No extraction method defined for file type: '' @ file_type)], Inr None)"
  using assms by (simp add: extract_data_def)

theorem extract_unsupported_label_witness:
  "''text/plain'' \<noteq> ''application/x-ole-storage'' \<and> ''text/plain'' \<noteq> ''image/jpeg'' \<and>
   extract_data example_env ''nowhere.bin'' ''text/plain'' =
     ([Log WARNING ''No extraction method defined for file type: text/plain''], Inr None)"
proof -
  have h1: "''text/plain'' \<noteq> ''application/x-ole-storage''" by simp
  have h2: "''text/plain'' \<noteq> ''image/jpeg''" by simp
  show ?thesis
    using h1 h2 extract_unsupported_label [OF h1 h2, of example_env "''nowhere.bin''"] by simp
qed

text \<open>
  Claim C6, as stated, fails: a valid container without streams and an existing file
  that is not a valid container both make \<^verbatim>\<open>extract_data\<close> return \<^verbatim>\<open>None\<close>.
\<close>

theorem empty_same_value_as_failure:
  "snd (extract_data example_env ''empty.ole'' ''application/x-ole-storage'') = Inr None \<and>
   snd (extract_data example_env ''photo.jpg'' ''application/x-ole-storage'') = Inr None"
  by (simp add: extract_data_def extract_ole_def example_env_def example_files_def empty_ole_def)

text \<open>
  Claim C6, amended. For a valid container whose directory lists no stream,
  \<^verbatim>\<open>extract_data\<close> with the label \<^verbatim>\<open>application/x-ole-storage\<close> returns
  \<^verbatim>\<open>None\<close>, the value it also returns for a failure; it raises nothing, closes the
  container and logs the warning that no streams were found.
\<close>

theorem extract_empty_container:
  assumes "isOleFile env file_path = Inr True"
      and "OleFileIO env file_path = Inr container"
      and "listdir container = []"
  shows "extract_data env file_path ''application/x-ole-storage'' =
           ([OleOpen file_path, OleClose file_path, Log WARNING ''No streams found in OLE file.''],
            Inr None)"
  using assms by (simp add: extract_data_def extract_ole_def)

theorem extract_empty_container_witness:
  "isOleFile example_env ''empty.ole'' = Inr True \<and>
   OleFileIO example_env ''empty.ole'' = Inr empty_ole \<and>
   listdir empty_ole = [] \<and>
   extract_data example_env ''empty.ole'' ''application/x-ole-storage'' =
     ([OleOpen ''empty.ole'', OleClose ''empty.ole'', Log WARNING ''No streams found in OLE file.''],
      Inr None)"
proof -
  have h1: "isOleFile example_env ''empty.ole'' = Inr True"
    by (simp add: example_env_def example_files_def)
  have h2: "OleFileIO example_env ''empty.ole'' = Inr empty_ole"
    by (simp add: example_env_def)
  have h3: "listdir empty_ole = []"
    by (simp add: empty_ole_def)
  show ?thesis
    using h1 h2 h3 extract_empty_container [OF h1 h2 h3] by simp
qed

text \<open>
  Claim C9 asks that no handle outlives the call that opened it. The code breaks it
  on the path of line 113: for \<^verbatim>\<open>report.doc\<close>, a valid container with a stream,
  \<^verbatim>\<open>extract_data\<close> returns the bytes of the stream and leaves the container open,
  while the path of line 114, taken when there is no stream, closes it.
\<close>

theorem ole_handle_left_open:
  "extract_data example_env ''report.doc'' ''application/x-ole-storage'' =
     ([OleOpen ''report.doc'', Log INFO ''Extracted data from stream: WordDocument''],
      Inr (Some [0x48, 0x69])) \<and>
   open_handles (fst (extract_data example_env ''report.doc'' ''application/x-ole-storage'')) =
     [OleHandle ''report.doc'']"
  by (simp add: extract_data_def extract_ole_def example_env_def example_files_def report_doc_def
      open_handles_def)

end
